theory Spec2Isabelle
  imports Main
begin

section \<open>Go values shared by both resources\<close>

text \<open>
  The two resources are glue between the plugin framework and the AWS SDK. A handler
  touches the outside only through calls: SDK operations, the framework's poller, the
  waiters. The model threads the history of those calls (a list, oldest first) through
  every function: the environment answers a call from the history so far, and the call
  is appended. A pointer is an \<open>option\<close> (\<open>None\<close> is nil), a Go pair
  \<open>(value, error)\<close> is a pair of options, a nil dereference is \<open>Panic\<close>.
  The context argument and the log lines change no result and are left out.
\<close>

type_synonym duration = int
  \<comment> \<open>time.Duration: nanoseconds\<close>

definition Second :: duration where
  "Second = 1000000000"

definition Minute :: duration where
  "Minute = 60 * Second"

definition aws_ToString :: "string option \<Rightarrow> string" where
  \<comment> \<open>aws.ToString / aws.StringValue: the empty string for nil\<close>
  "aws_ToString p = (case p of None \<Rightarrow> [] | Some s \<Rightarrow> s)"

datatype 'a outcome = Return 'a | Panic

subsection \<open>Local state: schema.ResourceData\<close>

text \<open>
  The framework's ResourceData, as far as the handlers use it: the id, the flag the host
  sets on a resource it is creating, one attribute store that d.Get reads and d.Set
  writes, and d.Timeout, which the host has resolved from the configuration and the
  resource's defaults.
\<close>

datatype attr = StringVal string | IntVal int

record ResourceData =
  rd_Id :: string
  rd_IsNewResource :: bool
  rd_attrs :: "string \<Rightarrow> attr option"
  rd_Timeout :: "string \<Rightarrow> duration"

definition TimeoutCreate :: string where
  "TimeoutCreate = ''create''"

definition TimeoutDelete :: string where
  "TimeoutDelete = ''delete''"

definition d_SetId :: "string \<Rightarrow> ResourceData \<Rightarrow> ResourceData" where
  "d_SetId v d = d\<lparr>rd_Id := v\<rparr>"

definition d_Get_string :: "ResourceData \<Rightarrow> string \<Rightarrow> string" where
  \<comment> \<open>d.Get(key).(string) on an attribute of TypeString: the zero value when unset\<close>
  "d_Get_string d key = (case rd_attrs d key of Some (StringVal s) \<Rightarrow> s | _ \<Rightarrow> [])"

definition d_Get_int :: "ResourceData \<Rightarrow> string \<Rightarrow> int" where
  \<comment> \<open>d.Get(key).(int) on an attribute of TypeInt\<close>
  "d_Get_int d key = (case rd_attrs d key of Some (IntVal n) \<Rightarrow> n | _ \<Rightarrow> 0)"

definition d_GetOk_string :: "ResourceData \<Rightarrow> string \<Rightarrow> string \<times> bool" where
  \<comment> \<open>d.GetOk(key): ok only when the attribute is set to a non-zero value\<close>
  "d_GetOk_string d key = (d_Get_string d key, d_Get_string d key \<noteq> [])"

definition d_Set :: "string \<Rightarrow> attr option \<Rightarrow> ResourceData \<Rightarrow> ResourceData" where
  \<comment> \<open>d.Set(key, pointer): the pointed-to value, nothing for a nil pointer\<close>
  "d_Set key v d = d\<lparr>rd_attrs := (rd_attrs d)(key := v)\<rparr>"

definition AttrName :: string where
  \<comment> \<open>Modelled from the spec: names.AttrName, the attribute the spec calls name\<close>
  "AttrName = ''name''"

definition AttrVPCID :: string where
  \<comment> \<open>Modelled from the spec: names.AttrVPCID, the attribute the spec calls vpc_id\<close>
  "AttrVPCID = ''vpc_id''"

section \<open>Route53 Resolver rule association\<close>

subsection \<open>SDK and framework types\<close>

record ResolverRuleAssociation =
  rra_Id :: "string option"
  rra_Name :: "string option"
  rra_ResolverRuleId :: "string option"
  rra_Status :: string
  rra_StatusMessage :: "string option"
  rra_VPCId :: "string option"

definition ResolverRuleAssociationStatusCreating :: string where
  "ResolverRuleAssociationStatusCreating = ''CREATING''"

definition ResolverRuleAssociationStatusComplete :: string where
  "ResolverRuleAssociationStatusComplete = ''COMPLETE''"

definition ResolverRuleAssociationStatusDeleting :: string where
  "ResolverRuleAssociationStatusDeleting = ''DELETING''"

record AssociateResolverRuleInput =
  ari_Name :: "string option"
  ari_ResolverRuleId :: "string option"
  ari_VPCId :: "string option"

record AssociateResolverRuleOutput =
  aro_ResolverRuleAssociation :: "ResolverRuleAssociation option"

record DisassociateResolverRuleInput =
  dri_ResolverRuleId :: "string option"
  dri_VPCId :: "string option"

record DisassociateResolverRuleOutput =
  dro_ResolverRuleAssociation :: "ResolverRuleAssociation option"

record GetResolverRuleAssociationInput =
  gri_ResolverRuleAssociationId :: "string option"

record GetResolverRuleAssociationOutput =
  gro_ResolverRuleAssociation :: "ResolverRuleAssociation option"

datatype err =
    ResourceNotFoundException string
  | ServiceError string
  | NotFoundError "err option" "GetResolverRuleAssociationInput option"
  | EmptyResultError GetResolverRuleAssociationInput
  | TimeoutError "err option" string duration "string list"
  | UnexpectedStateError "err option" string "string list"
  | errors_New string
  | Errorf string err

type_synonym Diagnostics = "err list"

definition sdkdiag_AppendErrorf :: "Diagnostics \<Rightarrow> string \<Rightarrow> err \<Rightarrow> Diagnostics" where
  \<comment> \<open>the message before the colon, with its arguments filled in, and the cause\<close>
  "sdkdiag_AppendErrorf diags msg e = diags @ [Errorf msg e]"

datatype StateRefreshFunc = statusRuleAssociation_closure string
  \<comment> \<open>the closure statusRuleAssociation(ctx, conn, id) returns, by the id it captures\<close>

record StateChangeConf =
  Pending :: "string list"
  Target :: "string list"
  Refresh :: StateRefreshFunc
  Timeout :: duration
  Delay :: duration
  MinTimeout :: duration

datatype call =
    Call_AssociateResolverRule AssociateResolverRuleInput
  | Call_DisassociateResolverRule DisassociateResolverRuleInput
  | Call_GetResolverRuleAssociation GetResolverRuleAssociationInput
  | Call_WaitForStateContext StateChangeConf

text \<open>
  What the file calls and does not define. The three helpers are code of the provider
  outside this file (errs.IsA at the SDK's ResourceNotFoundException, tfresource.NotFound,
  tfresource.SetLastError, the last one returning the error it updates in place); the
  poller is the framework's retry.StateChangeConf.WaitForStateContext, which returns
  the last object (nil when there is none) and an error.
\<close>

record helpers =
  errs_IsA_ResourceNotFoundException :: "err \<Rightarrow> bool"
  tfresource_NotFound :: "err \<Rightarrow> bool"
  tfresource_SetLastError :: "err \<Rightarrow> err \<Rightarrow> err"

record env = helpers +
  AssociateResolverRule ::
    "call list \<Rightarrow> AssociateResolverRuleInput \<Rightarrow> AssociateResolverRuleOutput option \<times> err option"
  DisassociateResolverRule ::
    "call list \<Rightarrow> DisassociateResolverRuleInput \<Rightarrow> DisassociateResolverRuleOutput option \<times> err option"
  GetResolverRuleAssociation ::
    "call list \<Rightarrow> GetResolverRuleAssociationInput \<Rightarrow> GetResolverRuleAssociationOutput option \<times> err option"
  WaitForStateContext ::
    "call list \<Rightarrow> StateChangeConf \<Rightarrow> ResolverRuleAssociation option \<times> err option"

definition IsA_ResourceNotFoundException :: "('a helpers_scheme) \<Rightarrow> err option \<Rightarrow> bool" where
  \<comment> \<open>errs.IsA[*awstypes.ResourceNotFoundException](err): false for a nil error\<close>
  "IsA_ResourceNotFoundException h err =
     (case err of None \<Rightarrow> False | Some e \<Rightarrow> errs_IsA_ResourceNotFoundException h e)"

definition NotFound :: "('a helpers_scheme) \<Rightarrow> err option \<Rightarrow> bool" where
  \<comment> \<open>tfresource.NotFound(err): false for a nil error\<close>
  "NotFound h err = (case err of None \<Rightarrow> False | Some e \<Rightarrow> tfresource_NotFound h e)"

definition SetLastError :: "('a helpers_scheme) \<Rightarrow> err option \<Rightarrow> err \<Rightarrow> err option" where
  \<comment> \<open>tfresource.SetLastError(err, lastErr): a nil error stays nil\<close>
  "SetLastError h err lastErr =
     (case err of None \<Rightarrow> None | Some e \<Rightarrow> Some (tfresource_SetLastError h e lastErr))"

definition conn_AssociateResolverRule ::
  "env \<Rightarrow> AssociateResolverRuleInput \<Rightarrow> call list
     \<Rightarrow> (AssociateResolverRuleOutput option \<times> err option) \<times> call list" where
  "conn_AssociateResolverRule E input w =
     (AssociateResolverRule E w input, w @ [Call_AssociateResolverRule input])"

definition conn_DisassociateResolverRule ::
  "env \<Rightarrow> DisassociateResolverRuleInput \<Rightarrow> call list
     \<Rightarrow> (DisassociateResolverRuleOutput option \<times> err option) \<times> call list" where
  "conn_DisassociateResolverRule E input w =
     (DisassociateResolverRule E w input, w @ [Call_DisassociateResolverRule input])"

definition conn_GetResolverRuleAssociation ::
  "env \<Rightarrow> GetResolverRuleAssociationInput \<Rightarrow> call list
     \<Rightarrow> (GetResolverRuleAssociationOutput option \<times> err option) \<times> call list" where
  "conn_GetResolverRuleAssociation E input w =
     (GetResolverRuleAssociation E w input, w @ [Call_GetResolverRuleAssociation input])"

definition WaitForStateContext_call ::
  "env \<Rightarrow> StateChangeConf \<Rightarrow> call list
     \<Rightarrow> (ResolverRuleAssociation option \<times> err option) \<times> call list" where
  "WaitForStateContext_call E stateConf w =
     (WaitForStateContext E w stateConf, w @ [Call_WaitForStateContext stateConf])"

subsection \<open>The resource declaration\<close>




subsection \<open>The lookup, the status function and the waiters\<close>

definition findResolverRuleAssociationByID ::
  "env \<Rightarrow> string \<Rightarrow> call list \<Rightarrow> (ResolverRuleAssociation option \<times> err option) \<times> call list" where
  "findResolverRuleAssociationByID E ident w =
     (let input = \<lparr>gri_ResolverRuleAssociationId = Some ident\<rparr>;
          ((output, err), w1) = conn_GetResolverRuleAssociation E input w
      in if IsA_ResourceNotFoundException E err
           then ((None, Some (NotFoundError err (Some input))), w1)
         else if err \<noteq> None then ((None, err), w1)
         else (case output of
                 None \<Rightarrow> ((None, Some (EmptyResultError input)), w1)
               | Some out \<Rightarrow>
                   (case gro_ResolverRuleAssociation out of
                      None \<Rightarrow> ((None, Some (EmptyResultError input)), w1)
                    | Some ra \<Rightarrow> ((Some ra, None), w1))))"

definition statusRuleAssociation :: "string \<Rightarrow> StateRefreshFunc" where
  "statusRuleAssociation ident = statusRuleAssociation_closure ident"

fun run_StateRefreshFunc ::
  "env \<Rightarrow> StateRefreshFunc \<Rightarrow> call list
     \<Rightarrow> (ResolverRuleAssociation option \<times> string \<times> err option) outcome \<times> call list" where
  "run_StateRefreshFunc E (statusRuleAssociation_closure ident) w =
     (let ((output, err), w1) = findResolverRuleAssociationByID E ident w
      in if NotFound E err then (Return (None, [], None), w1)
         else if err \<noteq> None then (Return (None, [], err), w1)
         else (case output of
                 None \<Rightarrow> (Panic, w1)
               | Some out \<Rightarrow> (Return (Some out, rra_Status out, None), w1)))"

definition waitRuleAssociationCreated ::
  "env \<Rightarrow> string \<Rightarrow> duration \<Rightarrow> call list
     \<Rightarrow> (ResolverRuleAssociation option \<times> err option) \<times> call list" where
  "waitRuleAssociationCreated E ident timeout w =
     (let stateConf = \<lparr>Pending = [ResolverRuleAssociationStatusCreating],
                        Target = [ResolverRuleAssociationStatusComplete],
                        Refresh = statusRuleAssociation ident,
                        Timeout = timeout,
                        Delay = 10 * Second,
                        MinTimeout = 5 * Second\<rparr>;
          ((outputRaw, err), w1) = WaitForStateContext_call E stateConf w
      in case outputRaw of
           Some output \<Rightarrow>
             ((Some output,
               SetLastError E err (errors_New (aws_ToString (rra_StatusMessage output)))), w1)
         | None \<Rightarrow> ((None, err), w1))"

definition waitRuleAssociationDeleted ::
  "env \<Rightarrow> string \<Rightarrow> duration \<Rightarrow> call list
     \<Rightarrow> (ResolverRuleAssociation option \<times> err option) \<times> call list" where
  "waitRuleAssociationDeleted E ident timeout w =
     (let stateConf = \<lparr>Pending = [ResolverRuleAssociationStatusDeleting],
                        Target = [],
                        Refresh = statusRuleAssociation ident,
                        Timeout = timeout,
                        Delay = 10 * Second,
                        MinTimeout = 5 * Second\<rparr>;
          ((outputRaw, err), w1) = WaitForStateContext_call E stateConf w
      in case outputRaw of
           Some output \<Rightarrow>
             ((Some output,
               SetLastError E err (errors_New (aws_ToString (rra_StatusMessage output)))), w1)
         | None \<Rightarrow> ((None, err), w1))"

subsection \<open>The handlers\<close>

definition resourceRuleAssociationRead ::
  "env \<Rightarrow> ResourceData \<Rightarrow> call list \<Rightarrow> Diagnostics outcome \<times> ResourceData \<times> call list" where
  "resourceRuleAssociationRead E d w =
     (let diags = [];
          ((ruleAssociation, err), w1) = findResolverRuleAssociationByID E (rd_Id d) w
      in if \<not> rd_IsNewResource d \<and> NotFound E err then (Return diags, d_SetId [] d, w1)
         else (case err of
                 Some e \<Rightarrow>
                   (Return (sdkdiag_AppendErrorf diags
                      (''reading Route53 Resolver Rule Association ('' @ rd_Id d @ '')'') e), d, w1)
               | None \<Rightarrow>
                   (case ruleAssociation of
                      None \<Rightarrow> (Panic, d, w1)
                    | Some ra \<Rightarrow>
                        (Return diags,
                         d_Set AttrVPCID (map_option StringVal (rra_VPCId ra))
                           (d_Set ''resolver_rule_id'' (map_option StringVal (rra_ResolverRuleId ra))
                             (d_Set AttrName (map_option StringVal (rra_Name ra)) d)),
                         w1))))"

definition resourceRuleAssociationCreate ::
  "env \<Rightarrow> ResourceData \<Rightarrow> call list \<Rightarrow> Diagnostics outcome \<times> ResourceData \<times> call list" where
  "resourceRuleAssociationCreate E d w =
     (let diags = [];
          input0 = \<lparr>ari_Name = None,
                     ari_ResolverRuleId = Some (d_Get_string d ''resolver_rule_id''),
                     ari_VPCId = Some (d_Get_string d AttrVPCID)\<rparr>;
          input = (case d_GetOk_string d AttrName of
                     (v, True) \<Rightarrow> input0\<lparr>ari_Name := Some v\<rparr>
                   | (v, False) \<Rightarrow> input0);
          ((output, err), w1) = conn_AssociateResolverRule E input w
      in case err of
           Some e \<Rightarrow>
             (Return (sdkdiag_AppendErrorf diags ''creating Route53 Resolver Rule Association'' e),
              d, w1)
         | None \<Rightarrow>
             (case output of
                None \<Rightarrow> (Panic, d, w1)
              | Some out \<Rightarrow>
                  (case aro_ResolverRuleAssociation out of
                     None \<Rightarrow> (Panic, d, w1)
                   | Some ra \<Rightarrow>
                       (let d1 = d_SetId (aws_ToString (rra_Id ra)) d;
                            ((waited, werr), w2) =
                               waitRuleAssociationCreated E (rd_Id d1) (rd_Timeout d1 TimeoutCreate) w1
                        in case werr of
                             Some e \<Rightarrow>
                               (Return (sdkdiag_AppendErrorf diags
                                  (''waiting for Route53 Resolver Rule Association ('' @ rd_Id d1
                                     @ '') create'') e), d1, w2)
                           | None \<Rightarrow>
                               (case resourceRuleAssociationRead E d1 w2 of
                                  (Return rdiags, d2, w3) \<Rightarrow> (Return (diags @ rdiags), d2, w3)
                                | (Panic, d2, w3) \<Rightarrow> (Panic, d2, w3))))))"

definition resourceRuleAssociationDelete ::
  "env \<Rightarrow> ResourceData \<Rightarrow> call list \<Rightarrow> Diagnostics outcome \<times> ResourceData \<times> call list" where
  "resourceRuleAssociationDelete E d w =
     (let diags = [];
          ((output, err), w1) =
             conn_DisassociateResolverRule E
               \<lparr>dri_ResolverRuleId = Some (d_Get_string d ''resolver_rule_id''),
                dri_VPCId = Some (d_Get_string d AttrVPCID)\<rparr> w
      in if IsA_ResourceNotFoundException E err then (Return diags, d, w1)
         else (case err of
                 Some e \<Rightarrow>
                   (Return (sdkdiag_AppendErrorf diags
                      (''deleting Route53 Resolver Rule Association ('' @ rd_Id d @ '')'') e), d, w1)
               | None \<Rightarrow>
                   (let ((waited, werr), w2) =
                           waitRuleAssociationDeleted E (rd_Id d) (rd_Timeout d TimeoutDelete) w1
                    in case werr of
                         Some e \<Rightarrow>
                           (Return (sdkdiag_AppendErrorf diags
                              (''waiting for Route53 Resolver Rule Association ('' @ rd_Id d
                                 @ '') delete'') e), d, w2)
                       | None \<Rightarrow> (Return diags, d, w2))))"

section \<open>RDS automated backup replication\<close>

subsection \<open>SDK types and what the file calls\<close>

record DBInstanceAutomatedBackup =
  dab_BackupRetentionPeriod :: "int option"
  dab_DBInstanceArn :: "string option"
  dab_DBInstanceAutomatedBackupsArn :: "string option"
  dab_DBInstanceIdentifier :: "string option"
  dab_KmsKeyId :: "string option"

record StartDBInstanceAutomatedBackupsReplicationInput =
  sri_BackupRetentionPeriod :: "int option"
  sri_KmsKeyId :: "string option"
  sri_SourceDBInstanceArn :: "string option"

record StartDBInstanceAutomatedBackupsReplicationOutput =
  sro_DBInstanceAutomatedBackup :: "DBInstanceAutomatedBackup option"

record StopDBInstanceAutomatedBackupsReplicationInput =
  spi_SourceDBInstanceArn :: "string option"

record StopDBInstanceAutomatedBackupsReplicationOutput =
  spo_DBInstanceAutomatedBackup :: "DBInstanceAutomatedBackup option"

record ARN =
  arn_Partition :: string
  arn_Service :: string
  arn_Region :: string
  arn_AccountID :: string
  arn_Resource :: string

record AWSClient =
  Region :: string
  \<comment> \<open>meta.(*conns.AWSClient): its region; its RDS client is \<open>meta_RDSConn\<close>\<close>

datatype RDSConn =
    meta_RDSConn
  | rds_New string
  \<comment> \<open>meta.RDSConn, and rds.New(meta.Session, aws.NewConfig().WithRegion(region))\<close>

datatype rds_call =
    Call_StartDBInstanceAutomatedBackupsReplication RDSConn StartDBInstanceAutomatedBackupsReplicationInput
  | Call_StopDBInstanceAutomatedBackupsReplication RDSConn StopDBInstanceAutomatedBackupsReplicationInput
  | Call_FindDBInstanceAutomatedBackupByARN RDSConn string
  | Call_waitDBInstanceAutomatedBackupCreated RDSConn string duration
  | Call_waitDBInstanceAutomatedBackupDeleted RDSConn string string duration

text \<open>
  The lookup by ARN and the two waiters are functions of the provider's rds package
  that this file calls and does not define; arn.Parse is the SDK's. They are taken as
  they are called: the lookup and the waiters answer from the history, the parser is
  a function of its argument.
\<close>

record rds_env = helpers +
  StartDBInstanceAutomatedBackupsReplication ::
    "rds_call list \<Rightarrow> RDSConn \<Rightarrow> StartDBInstanceAutomatedBackupsReplicationInput
       \<Rightarrow> StartDBInstanceAutomatedBackupsReplicationOutput option \<times> err option"
  StopDBInstanceAutomatedBackupsReplication ::
    "rds_call list \<Rightarrow> RDSConn \<Rightarrow> StopDBInstanceAutomatedBackupsReplicationInput
       \<Rightarrow> StopDBInstanceAutomatedBackupsReplicationOutput option \<times> err option"
  FindDBInstanceAutomatedBackupByARN ::
    "rds_call list \<Rightarrow> RDSConn \<Rightarrow> string \<Rightarrow> DBInstanceAutomatedBackup option \<times> err option"
  waitDBInstanceAutomatedBackupCreated ::
    "rds_call list \<Rightarrow> RDSConn \<Rightarrow> string \<Rightarrow> duration
       \<Rightarrow> DBInstanceAutomatedBackup option \<times> err option"
  waitDBInstanceAutomatedBackupDeleted ::
    "rds_call list \<Rightarrow> RDSConn \<Rightarrow> string \<Rightarrow> string \<Rightarrow> duration
       \<Rightarrow> DBInstanceAutomatedBackup option \<times> err option"
  arn_Parse :: "string \<Rightarrow> ARN \<times> err option"

definition conn_StartDBInstanceAutomatedBackupsReplication ::
  "rds_env \<Rightarrow> RDSConn \<Rightarrow> StartDBInstanceAutomatedBackupsReplicationInput \<Rightarrow> rds_call list
     \<Rightarrow> (StartDBInstanceAutomatedBackupsReplicationOutput option \<times> err option) \<times> rds_call list" where
  "conn_StartDBInstanceAutomatedBackupsReplication R conn input w =
     (StartDBInstanceAutomatedBackupsReplication R w conn input,
      w @ [Call_StartDBInstanceAutomatedBackupsReplication conn input])"

definition conn_StopDBInstanceAutomatedBackupsReplication ::
  "rds_env \<Rightarrow> RDSConn \<Rightarrow> StopDBInstanceAutomatedBackupsReplicationInput \<Rightarrow> rds_call list
     \<Rightarrow> (StopDBInstanceAutomatedBackupsReplicationOutput option \<times> err option) \<times> rds_call list" where
  "conn_StopDBInstanceAutomatedBackupsReplication R conn input w =
     (StopDBInstanceAutomatedBackupsReplication R w conn input,
      w @ [Call_StopDBInstanceAutomatedBackupsReplication conn input])"

definition FindDBInstanceAutomatedBackupByARN_call ::
  "rds_env \<Rightarrow> RDSConn \<Rightarrow> string \<Rightarrow> rds_call list
     \<Rightarrow> (DBInstanceAutomatedBackup option \<times> err option) \<times> rds_call list" where
  "FindDBInstanceAutomatedBackupByARN_call R conn a w =
     (FindDBInstanceAutomatedBackupByARN R w conn a,
      w @ [Call_FindDBInstanceAutomatedBackupByARN conn a])"

definition waitDBInstanceAutomatedBackupCreated_call ::
  "rds_env \<Rightarrow> RDSConn \<Rightarrow> string \<Rightarrow> duration \<Rightarrow> rds_call list
     \<Rightarrow> (DBInstanceAutomatedBackup option \<times> err option) \<times> rds_call list" where
  "waitDBInstanceAutomatedBackupCreated_call R conn a timeout w =
     (waitDBInstanceAutomatedBackupCreated R w conn a timeout,
      w @ [Call_waitDBInstanceAutomatedBackupCreated conn a timeout])"

definition waitDBInstanceAutomatedBackupDeleted_call ::
  "rds_env \<Rightarrow> RDSConn \<Rightarrow> string \<Rightarrow> string \<Rightarrow> duration \<Rightarrow> rds_call list
     \<Rightarrow> (DBInstanceAutomatedBackup option \<times> err option) \<times> rds_call list" where
  "waitDBInstanceAutomatedBackupDeleted_call R conn dbInstanceID a timeout w =
     (waitDBInstanceAutomatedBackupDeleted R w conn dbInstanceID a timeout,
      w @ [Call_waitDBInstanceAutomatedBackupDeleted conn dbInstanceID a timeout])"

subsection \<open>The handlers\<close>

definition resourceInstanceAutomatedBackupReplicationRead ::
  "rds_env \<Rightarrow> AWSClient \<Rightarrow> ResourceData \<Rightarrow> rds_call list
     \<Rightarrow> err option outcome \<times> ResourceData \<times> rds_call list" where
  "resourceInstanceAutomatedBackupReplicationRead R meta d w =
     (let conn = meta_RDSConn;
          ((backup, err), w1) = FindDBInstanceAutomatedBackupByARN_call R conn (rd_Id d) w
      in if \<not> rd_IsNewResource d \<and> NotFound R err then (Return None, d_SetId [] d, w1)
         else (case err of
                 Some e \<Rightarrow>
                   (Return (Some (Errorf
                      (''error reading RDS instance automated backup replication ('' @ rd_Id d @ '')'') e)),
                    d, w1)
               | None \<Rightarrow>
                   (case backup of
                      None \<Rightarrow> (Panic, d, w1)
                    | Some b \<Rightarrow>
                        (Return None,
                         d_Set ''source_db_instance_arn'' (map_option StringVal (dab_DBInstanceArn b))
                           (d_Set ''retention_period'' (map_option IntVal (dab_BackupRetentionPeriod b))
                             (d_Set ''kms_key_id'' (map_option StringVal (dab_KmsKeyId b)) d)),
                         w1))))"

definition resourceInstanceAutomatedBackupReplicationCreate ::
  "rds_env \<Rightarrow> AWSClient \<Rightarrow> ResourceData \<Rightarrow> rds_call list
     \<Rightarrow> err option outcome \<times> ResourceData \<times> rds_call list" where
  "resourceInstanceAutomatedBackupReplicationCreate R meta d w =
     (let conn = meta_RDSConn;
          input0 = \<lparr>sri_BackupRetentionPeriod = Some (d_Get_int d ''retention_period''),
                     sri_KmsKeyId = None,
                     sri_SourceDBInstanceArn = Some (d_Get_string d ''source_db_instance_arn'')\<rparr>;
          input = (case d_GetOk_string d ''kms_key_id'' of
                     (v, True) \<Rightarrow> input0\<lparr>sri_KmsKeyId := Some v\<rparr>
                   | (v, False) \<Rightarrow> input0);
          ((output, err), w1) = conn_StartDBInstanceAutomatedBackupsReplication R conn input w
      in case err of
           Some e \<Rightarrow>
             (Return (Some (Errorf ''error starting RDS instance automated backup replication'' e)),
              d, w1)
         | None \<Rightarrow>
             (case output of
                None \<Rightarrow> (Panic, d, w1)
              | Some out \<Rightarrow>
                  (case sro_DBInstanceAutomatedBackup out of
                     None \<Rightarrow> (Panic, d, w1)
                   | Some b \<Rightarrow>
                       (let d1 = d_SetId (aws_ToString (dab_DBInstanceAutomatedBackupsArn b)) d;
                            ((waited, werr), w2) =
                               waitDBInstanceAutomatedBackupCreated_call R conn (rd_Id d1)
                                 (rd_Timeout d1 TimeoutCreate) w1
                        in case werr of
                             Some e \<Rightarrow>
                               (Return (Some (Errorf
                                  (''error waiting for DB instance automated backup ('' @ rd_Id d1
                                     @ '') create'') e)), d1, w2)
                           | None \<Rightarrow> resourceInstanceAutomatedBackupReplicationRead R meta d1 w2))))"

definition resourceInstanceAutomatedBackupReplicationDelete ::
  "rds_env \<Rightarrow> AWSClient \<Rightarrow> ResourceData \<Rightarrow> rds_call list
     \<Rightarrow> err option outcome \<times> ResourceData \<times> rds_call list" where
  "resourceInstanceAutomatedBackupReplicationDelete R meta d w =
     (let conn = meta_RDSConn;
          ((backup, err), w1) = FindDBInstanceAutomatedBackupByARN_call R conn (rd_Id d) w
      in if NotFound R err then (Return None, d, w1)
         else (case err of
                 Some e \<Rightarrow>
                   (Return (Some (Errorf
                      (''error reading RDS instance automated backup replication ('' @ rd_Id d @ '')'') e)),
                    d, w1)
               | None \<Rightarrow>
                   (case backup of
                      None \<Rightarrow> (Panic, d, w1)
                    | Some b \<Rightarrow>
                        (let dbInstanceID = aws_ToString (dab_DBInstanceIdentifier b);
                             (sourceDatabaseARN, perr) = arn_Parse R (aws_ToString (dab_DBInstanceArn b))
                         in case perr of
                              Some e \<Rightarrow> (Return (Some e), d, w1)
                            | None \<Rightarrow>
                                (let ((stopped, serr), w2) =
                                        conn_StopDBInstanceAutomatedBackupsReplication R conn
                                          \<lparr>spi_SourceDBInstanceArn =
                                             Some (d_Get_string d ''source_db_instance_arn'')\<rparr> w1
                                 in case serr of
                                      Some e \<Rightarrow>
                                        (Return (Some (Errorf
                                           (''error stopping RDS instance automated backup replication (''
                                              @ rd_Id d @ '')'') e)), d, w2)
                                    | None \<Rightarrow>
                                        (let sourceDatabaseConn =
                                                (if arn_Region sourceDatabaseARN \<noteq> Region meta
                                                 then rds_New (arn_Region sourceDatabaseARN)
                                                 else conn);
                                             ((waited, werr), w3) =
                                                waitDBInstanceAutomatedBackupDeleted_call R
                                                  sourceDatabaseConn dbInstanceID (rd_Id d)
                                                  (rd_Timeout d TimeoutCreate) w2
                                         in case werr of
                                              Some e \<Rightarrow>
                                                (Return (Some (Errorf
                                                   (''error waiting for DB instance automated backup (''
                                                      @ rd_Id d @ '') delete'') e)), d, w3)
                                            | None \<Rightarrow> (Return None, d, w3)))))))"

section \<open>Example environments\<close>

text \<open>
  Concrete environments and resource data, used to run the handlers on explicit inputs.
  The helpers of the examples recognise the SDK's fault by its constructor, take the
  sentinel for not found, and fill an empty LastError of the poller's two errors.
\<close>

definition isA0 :: "err \<Rightarrow> bool" where
  "isA0 e = (case e of ResourceNotFoundException m \<Rightarrow> True | _ \<Rightarrow> False)"

definition notFound0 :: "err \<Rightarrow> bool" where
  "notFound0 e = (case e of NotFoundError l r \<Rightarrow> True | _ \<Rightarrow> False)"

definition setLastError0 :: "err \<Rightarrow> err \<Rightarrow> err" where
  "setLastError0 e lastErr =
     (case e of
        TimeoutError None s t x \<Rightarrow> TimeoutError (Some lastErr) s t x
      | UnexpectedStateError None s x \<Rightarrow> UnexpectedStateError (Some lastErr) s x
      | _ \<Rightarrow> e)"

definition ra_complete :: ResolverRuleAssociation where
  "ra_complete =
     \<lparr>rra_Id = Some ''rslvr-rrassoc-1'', rra_Name = Some ''to-vpc'',
      rra_ResolverRuleId = Some ''rslvr-rr-7'', rra_Status = ''COMPLETE'',
      rra_StatusMessage = None, rra_VPCId = Some ''vpc-9''\<rparr>"

definition ra_failed :: ResolverRuleAssociation where
  "ra_failed = ra_complete\<lparr>rra_Status := ''FAILED'', rra_StatusMessage := Some ''rule not shared''\<rparr>"

definition env_present :: env where
  \<comment> \<open>the association exists: every call succeeds\<close>
  "env_present =
     \<lparr>errs_IsA_ResourceNotFoundException = isA0,
        tfresource_NotFound = notFound0,
        tfresource_SetLastError = setLastError0,
        AssociateResolverRule = (\<lambda>w i. (Some \<lparr>aro_ResolverRuleAssociation = Some ra_complete\<rparr>, None)),
        DisassociateResolverRule = (\<lambda>w i. (Some \<lparr>dro_ResolverRuleAssociation = Some ra_complete\<rparr>, None)),
        GetResolverRuleAssociation = (\<lambda>w i. (Some \<lparr>gro_ResolverRuleAssociation = Some ra_complete\<rparr>, None)),
        WaitForStateContext = (\<lambda>w c. if Target c = [] then (None, None) else (Some ra_complete, None))\<rparr>"

definition env_absent :: env where
  \<comment> \<open>the association does not exist: the SDK answers with its not-found fault\<close>
  "env_absent =
     \<lparr>errs_IsA_ResourceNotFoundException = isA0,
        tfresource_NotFound = notFound0,
        tfresource_SetLastError = setLastError0,
        AssociateResolverRule = (\<lambda>w i. (None, Some (ServiceError ''InvalidRequestException''))),
        DisassociateResolverRule = (\<lambda>w i. (None, Some (ResourceNotFoundException ''no such association''))),
        GetResolverRuleAssociation = (\<lambda>w i. (None, Some (ResourceNotFoundException ''no such association''))),
        WaitForStateContext = (\<lambda>w c. (None, None))\<rparr>"

definition env_empty :: env where
  \<comment> \<open>the read succeeds with a response that holds no association\<close>
  "env_empty =
     env_present\<lparr>GetResolverRuleAssociation := (\<lambda>w i. (Some \<lparr>gro_ResolverRuleAssociation = None\<rparr>, None))\<rparr>"

definition env_stuck :: env where
  \<comment> \<open>the poller gives up on an association in a state it does not expect\<close>
  "env_stuck =
     env_present\<lparr>WaitForStateContext :=
        (\<lambda>w c. (Some ra_failed, Some (UnexpectedStateError None ''FAILED'' (Target c))))\<rparr>"

definition d_config :: ResourceData where
  \<comment> \<open>a configuration about to be created: no id yet, marked new by the host\<close>
  "d_config =
     \<lparr>rd_Id = [], rd_IsNewResource = True,
      rd_attrs = [''resolver_rule_id'' \<mapsto> StringVal ''rslvr-rr-7'', ''vpc_id'' \<mapsto> StringVal ''vpc-9''],
      rd_Timeout = (\<lambda>k. if k = ''create'' then 10 * Minute else 20 * Minute)\<rparr>"

definition d_known :: ResourceData where
  \<comment> \<open>a resource already in the state\<close>
  "d_known = d_config\<lparr>rd_Id := ''rslvr-rrassoc-1'', rd_IsNewResource := False\<rparr>"

definition env_broken :: env where
  \<comment> \<open>the read fails with a fault other than not found\<close>
  "env_broken =
     env_present\<lparr>GetResolverRuleAssociation :=
        (\<lambda>w i. (None, Some (ServiceError ''InternalServiceErrorException'')))\<rparr>"

definition ra_creating :: ResolverRuleAssociation where
  "ra_creating =
     ra_complete\<lparr>rra_Status := ''CREATING'', rra_StatusMessage := Some ''creating the association''\<rparr>"

definition env_timeout :: env where
  \<comment> \<open>the association stays in CREATING; the poller runs out of time and returns its
      TimeoutError with no object\<close>
  "env_timeout =
     env_present
       \<lparr>AssociateResolverRule := (\<lambda>w i. (Some \<lparr>aro_ResolverRuleAssociation = Some ra_creating\<rparr>, None)),
        GetResolverRuleAssociation := (\<lambda>w i. (Some \<lparr>gro_ResolverRuleAssociation = Some ra_creating\<rparr>, None)),
        WaitForStateContext := (\<lambda>w c. (None, Some (TimeoutError None ''CREATING'' (Timeout c) (Target c))))\<rparr>"

definition d_fresh :: ResourceData where
  \<comment> \<open>a resource the create handler has just given its id: still marked new\<close>
  "d_fresh = d_config\<lparr>rd_Id := ''rslvr-rrassoc-1''\<rparr>"

definition backup1 :: DBInstanceAutomatedBackup where
  "backup1 =
     \<lparr>dab_BackupRetentionPeriod = Some 7,
      dab_DBInstanceArn = Some ''arn:aws:rds:us-east-1:123456789012:db:mydb'',
      dab_DBInstanceAutomatedBackupsArn = Some ''arn:aws:rds:us-west-2:123456789012:auto-backup:ab-1'',
      dab_DBInstanceIdentifier = Some ''mydb'',
      dab_KmsKeyId = Some ''arn:aws:kms:us-west-2:123456789012:key/k1''\<rparr>"

definition parse1 :: "string \<Rightarrow> ARN \<times> err option" where
  \<comment> \<open>a parser that knows the one ARN of the example\<close>
  "parse1 s =
     (if s = ''arn:aws:rds:us-east-1:123456789012:db:mydb''
      then (\<lparr>arn_Partition = ''aws'', arn_Service = ''rds'', arn_Region = ''us-east-1'',
             arn_AccountID = ''123456789012'', arn_Resource = ''db:mydb''\<rparr>, None)
      else (\<lparr>arn_Partition = [], arn_Service = [], arn_Region = [], arn_AccountID = [],
             arn_Resource = []\<rparr>, Some (errors_New ''arn: invalid prefix'')))"

definition rds_present :: rds_env where
  \<comment> \<open>the replicated backup exists: every call succeeds\<close>
  "rds_present =
     \<lparr>errs_IsA_ResourceNotFoundException = isA0,
        tfresource_NotFound = notFound0,
        tfresource_SetLastError = setLastError0,
        StartDBInstanceAutomatedBackupsReplication =
          (\<lambda>w c i. (Some \<lparr>sro_DBInstanceAutomatedBackup = Some backup1\<rparr>, None)),
        StopDBInstanceAutomatedBackupsReplication =
          (\<lambda>w c i. (Some \<lparr>spo_DBInstanceAutomatedBackup = Some backup1\<rparr>, None)),
        FindDBInstanceAutomatedBackupByARN = (\<lambda>w c a. (Some backup1, None)),
        waitDBInstanceAutomatedBackupCreated = (\<lambda>w c a t. (Some backup1, None)),
        waitDBInstanceAutomatedBackupDeleted = (\<lambda>w c i a t. (None, None)),
        arn_Parse = parse1\<rparr>"

definition rds_absent :: rds_env where
  \<comment> \<open>the replicated backup does not exist\<close>
  "rds_absent =
     rds_present
       \<lparr>StartDBInstanceAutomatedBackupsReplication :=
          (\<lambda>w c i. (None, Some (ServiceError ''DBInstanceNotFound''))),
        FindDBInstanceAutomatedBackupByARN := (\<lambda>w c a. (None, Some (NotFoundError None None)))\<rparr>"

definition meta_west :: AWSClient where
  "meta_west = \<lparr>Region = ''us-west-2''\<rparr>"

definition meta_east :: AWSClient where
  "meta_east = \<lparr>Region = ''us-east-1''\<rparr>"

definition d_backup_config :: ResourceData where
  "d_backup_config =
     \<lparr>rd_Id = [], rd_IsNewResource = True,
      rd_attrs = [''source_db_instance_arn'' \<mapsto> StringVal ''arn:aws:rds:us-east-1:123456789012:db:mydb'',
                  ''retention_period'' \<mapsto> IntVal 7],
      rd_Timeout = (\<lambda>k. if k = ''create'' then 75 * Minute else 20 * Minute)\<rparr>"

definition d_backup_known :: ResourceData where
  "d_backup_known =
     d_backup_config\<lparr>rd_Id := ''arn:aws:rds:us-west-2:123456789012:auto-backup:ab-1'',
                      rd_IsNewResource := False\<rparr>"


section \<open>What a run of a handler calls\<close>

text \<open>
  The lookup and the handlers, step by step: which call comes next after which answer,
  and the calls a run can make in all.
\<close>

lemma findResolverRuleAssociationByID_calls:
  "snd (findResolverRuleAssociationByID E ident w) =
     w @ [Call_GetResolverRuleAssociation \<lparr>gri_ResolverRuleAssociationId = Some ident\<rparr>]"
  by (simp add: findResolverRuleAssociationByID_def conn_GetResolverRuleAssociation_def Let_def
      split: prod.splits option.splits)

lemma findResolverRuleAssociationByID_shape:
  "(\<exists>ra. fst (findResolverRuleAssociationByID E ident w) = (Some ra, None))
   \<or> (\<exists>e. fst (findResolverRuleAssociationByID E ident w) = (None, Some e))"
  by (auto simp add: findResolverRuleAssociationByID_def conn_GetResolverRuleAssociation_def
      Let_def split: prod.splits option.splits)

lemma resourceRuleAssociationRead_unfold:
  "resourceRuleAssociationRead E d w =
     (let r = fst (findResolverRuleAssociationByID E (rd_Id d) w);
          w1 = w @ [Call_GetResolverRuleAssociation \<lparr>gri_ResolverRuleAssociationId = Some (rd_Id d)\<rparr>]
      in if \<not> rd_IsNewResource d \<and> NotFound E (snd r) then (Return [], d\<lparr>rd_Id := []\<rparr>, w1)
         else (case snd r of
                 Some e \<Rightarrow>
                   (Return [Errorf (''reading Route53 Resolver Rule Association ('' @ rd_Id d @ '')'') e],
                    d, w1)
               | None \<Rightarrow>
                   (case fst r of
                      None \<Rightarrow> (Panic, d, w1)
                    | Some ra \<Rightarrow>
                        (Return [],
                         d\<lparr>rd_attrs := (rd_attrs d)
                              (''name'' := map_option StringVal (rra_Name ra),
                               ''resolver_rule_id'' := map_option StringVal (rra_ResolverRuleId ra),
                               ''vpc_id'' := map_option StringVal (rra_VPCId ra))\<rparr>,
                         w1))))"
proof -
  obtain obj err w1 where f: "findResolverRuleAssociationByID E (rd_Id d) w = ((obj, err), w1)"
    by (metis surj_pair)
  have "w1 = w @ [Call_GetResolverRuleAssociation \<lparr>gri_ResolverRuleAssociationId = Some (rd_Id d)\<rparr>]"
    using findResolverRuleAssociationByID_calls [of E "rd_Id d" w] f by simp
  then show ?thesis
    by (simp add: resourceRuleAssociationRead_def f d_SetId_def d_Set_def sdkdiag_AppendErrorf_def
        AttrName_def AttrVPCID_def Let_def split: option.splits)
qed


lemma waitRuleAssociationCreated_unfold:
  "waitRuleAssociationCreated E ident t w1 =
     (let conf = \<lparr>Pending = [''CREATING''], Target = [''COMPLETE''],
                   Refresh = statusRuleAssociation ident, Timeout = t,
                   Delay = 10 * Second, MinTimeout = 5 * Second\<rparr>
      in case WaitForStateContext E w1 conf of
           (obj, err) \<Rightarrow>
             ((obj,
               case err of
                 None \<Rightarrow> None
               | Some e \<Rightarrow>
                   Some (case obj of
                           None \<Rightarrow> e
                         | Some ob \<Rightarrow>
                             tfresource_SetLastError E e
                               (errors_New (aws_ToString (rra_StatusMessage ob))))),
              w1 @ [Call_WaitForStateContext conf]))"
  by (simp add: waitRuleAssociationCreated_def WaitForStateContext_call_def SetLastError_def
      ResolverRuleAssociationStatusCreating_def ResolverRuleAssociationStatusComplete_def Let_def
      split: prod.splits option.splits)


lemma resourceRuleAssociationCreate_steps:
  fixes E d w
  defines "input \<equiv> \<lparr>ari_Name = (if d_Get_string d AttrName = [] then None
                                     else Some (d_Get_string d AttrName)),
                        ari_ResolverRuleId = Some (d_Get_string d ''resolver_rule_id''),
                        ari_VPCId = Some (d_Get_string d AttrVPCID)\<rparr>"
  defines "w1 \<equiv> w @ [Call_AssociateResolverRule input]"
  defines "conf \<equiv> (\<lambda>ra. \<lparr>Pending = [''CREATING''], Target = [''COMPLETE''],
                             Refresh = statusRuleAssociation (aws_ToString (rra_Id ra)),
                             Timeout = rd_Timeout d TimeoutCreate,
                             Delay = 10 * Second, MinTimeout = 5 * Second\<rparr>)"
  shows create_call_failed:
    "AssociateResolverRule E w input = (out, Some e) \<Longrightarrow>
     resourceRuleAssociationCreate E d w =
       (Return [Errorf ''creating Route53 Resolver Rule Association'' e], d, w1)"
  and create_nil_output:
    "AssociateResolverRule E w input = (None, None) \<Longrightarrow>
     resourceRuleAssociationCreate E d w = (Panic, d, w1)"
  and create_nil_association:
    "AssociateResolverRule E w input = (Some ao, None) \<Longrightarrow>
     aro_ResolverRuleAssociation ao = None \<Longrightarrow>
     resourceRuleAssociationCreate E d w = (Panic, d, w1)"
  and create_wait_failed:
    "AssociateResolverRule E w input = (Some ao, None) \<Longrightarrow>
     aro_ResolverRuleAssociation ao = Some ra \<Longrightarrow>
     WaitForStateContext E w1 (conf ra) = (obj, Some e) \<Longrightarrow>
     resourceRuleAssociationCreate E d w =
       (Return [Errorf (''waiting for Route53 Resolver Rule Association (''
                          @ aws_ToString (rra_Id ra) @ '') create'')
                  (case obj of
                     None \<Rightarrow> e
                   | Some ob \<Rightarrow>
                       tfresource_SetLastError E e
                         (errors_New (aws_ToString (rra_StatusMessage ob))))],
        d\<lparr>rd_Id := aws_ToString (rra_Id ra)\<rparr>,
        w1 @ [Call_WaitForStateContext (conf ra)])"
  and create_wait_done:
    "AssociateResolverRule E w input = (Some ao, None) \<Longrightarrow>
     aro_ResolverRuleAssociation ao = Some ra \<Longrightarrow>
     WaitForStateContext E w1 (conf ra) = (obj, None) \<Longrightarrow>
     resourceRuleAssociationCreate E d w =
       resourceRuleAssociationRead E (d\<lparr>rd_Id := aws_ToString (rra_Id ra)\<rparr>)
         (w1 @ [Call_WaitForStateContext (conf ra)])"
  unfolding input_def w1_def conf_def
  by ((cases "d_Get_string d AttrName = []";
       simp add: resourceRuleAssociationCreate_def conn_AssociateResolverRule_def
         waitRuleAssociationCreated_unfold d_GetOk_string_def d_SetId_def sdkdiag_AppendErrorf_def
         Let_def split: prod.splits outcome.splits)+)




lemma rds_Create_steps:
  fixes R meta d w
  defines "input \<equiv> \<lparr>sri_BackupRetentionPeriod = Some (d_Get_int d ''retention_period''),
                        sri_KmsKeyId = (if d_Get_string d ''kms_key_id'' = [] then None
                                        else Some (d_Get_string d ''kms_key_id'')),
                        sri_SourceDBInstanceArn = Some (d_Get_string d ''source_db_instance_arn'')\<rparr>"
  defines "w1 \<equiv> w @ [Call_StartDBInstanceAutomatedBackupsReplication meta_RDSConn input]"
  shows rds_create_call_failed:
    "StartDBInstanceAutomatedBackupsReplication R w meta_RDSConn input = (out, Some e) \<Longrightarrow>
     resourceInstanceAutomatedBackupReplicationCreate R meta d w =
       (Return (Some (Errorf ''error starting RDS instance automated backup replication'' e)), d, w1)"
  and rds_create_nil_output:
    "StartDBInstanceAutomatedBackupsReplication R w meta_RDSConn input = (None, None) \<Longrightarrow>
     resourceInstanceAutomatedBackupReplicationCreate R meta d w = (Panic, d, w1)"
  and rds_create_nil_backup:
    "StartDBInstanceAutomatedBackupsReplication R w meta_RDSConn input = (Some so, None) \<Longrightarrow>
     sro_DBInstanceAutomatedBackup so = None \<Longrightarrow>
     resourceInstanceAutomatedBackupReplicationCreate R meta d w = (Panic, d, w1)"
  and rds_create_wait_failed:
    "StartDBInstanceAutomatedBackupsReplication R w meta_RDSConn input = (Some so, None) \<Longrightarrow>
     sro_DBInstanceAutomatedBackup so = Some b \<Longrightarrow>
     waitDBInstanceAutomatedBackupCreated R w1 meta_RDSConn
       (aws_ToString (dab_DBInstanceAutomatedBackupsArn b)) (rd_Timeout d TimeoutCreate)
       = (obj, Some e) \<Longrightarrow>
     resourceInstanceAutomatedBackupReplicationCreate R meta d w =
       (Return (Some (Errorf (''error waiting for DB instance automated backup (''
                                @ aws_ToString (dab_DBInstanceAutomatedBackupsArn b)
                                @ '') create'') e)),
        d\<lparr>rd_Id := aws_ToString (dab_DBInstanceAutomatedBackupsArn b)\<rparr>,
        w1 @ [Call_waitDBInstanceAutomatedBackupCreated meta_RDSConn
                (aws_ToString (dab_DBInstanceAutomatedBackupsArn b)) (rd_Timeout d TimeoutCreate)])"
  and rds_create_wait_done:
    "StartDBInstanceAutomatedBackupsReplication R w meta_RDSConn input = (Some so, None) \<Longrightarrow>
     sro_DBInstanceAutomatedBackup so = Some b \<Longrightarrow>
     waitDBInstanceAutomatedBackupCreated R w1 meta_RDSConn
       (aws_ToString (dab_DBInstanceAutomatedBackupsArn b)) (rd_Timeout d TimeoutCreate)
       = (obj, None) \<Longrightarrow>
     resourceInstanceAutomatedBackupReplicationCreate R meta d w =
       resourceInstanceAutomatedBackupReplicationRead R meta
         (d\<lparr>rd_Id := aws_ToString (dab_DBInstanceAutomatedBackupsArn b)\<rparr>)
         (w1 @ [Call_waitDBInstanceAutomatedBackupCreated meta_RDSConn
                  (aws_ToString (dab_DBInstanceAutomatedBackupsArn b)) (rd_Timeout d TimeoutCreate)])"
  unfolding input_def w1_def
  by ((cases "d_Get_string d ''kms_key_id'' = []";
       simp add: resourceInstanceAutomatedBackupReplicationCreate_def
         conn_StartDBInstanceAutomatedBackupsReplication_def
         waitDBInstanceAutomatedBackupCreated_call_def d_GetOk_string_def d_SetId_def Let_def)+)



section \<open>The claims\<close>

text \<open>
  C1, as the code has it. The read handler makes the one call of the lookup. When the
  lookup's error is a not-found error and the resource is not new (d.IsNewResource() is
  false), the handler sets the id to the empty string and returns without error. When
  the lookup fails and the resource is new, or the error is not a not-found error, the
  handler returns the error wrapped and leaves the resource data as it was. When the
  lookup succeeds, the handler copies name, resolver_rule_id and vpc_id (resp. kms_key_id,
  retention_period and source_db_instance_arn) from the remote object as they are and
  returns without error.
\<close>

theorem read_clears_or_copies:
  "(let r = fst (findResolverRuleAssociationByID E (rd_Id d) w);
        w1 = w @ [Call_GetResolverRuleAssociation \<lparr>gri_ResolverRuleAssociationId = Some (rd_Id d)\<rparr>];
        res = resourceRuleAssociationRead E d w
    in (r = (x, Some e) \<and> tfresource_NotFound E e \<and> \<not> rd_IsNewResource d \<longrightarrow>
          res = (Return [], d\<lparr>rd_Id := []\<rparr>, w1))
       \<and> (r = (x, Some e) \<and> (rd_IsNewResource d \<or> \<not> tfresource_NotFound E e) \<longrightarrow>
            res = (Return [Errorf (''reading Route53 Resolver Rule Association ('' @ rd_Id d @ '')'') e],
                   d, w1))
       \<and> (r = (Some ra, None) \<longrightarrow>
            res = (Return [],
                   d\<lparr>rd_attrs := (rd_attrs d)
                        (''name'' := map_option StringVal (rra_Name ra),
                         ''resolver_rule_id'' := map_option StringVal (rra_ResolverRuleId ra),
                         ''vpc_id'' := map_option StringVal (rra_VPCId ra))\<rparr>,
                   w1)))
   \<and> (let r = FindDBInstanceAutomatedBackupByARN R w' meta_RDSConn (rd_Id d');
          w1 = w' @ [Call_FindDBInstanceAutomatedBackupByARN meta_RDSConn (rd_Id d')];
          res = resourceInstanceAutomatedBackupReplicationRead R meta d' w'
      in (r = (x', Some e') \<and> tfresource_NotFound R e' \<and> \<not> rd_IsNewResource d' \<longrightarrow>
            res = (Return None, d'\<lparr>rd_Id := []\<rparr>, w1))
         \<and> (r = (x', Some e') \<and> (rd_IsNewResource d' \<or> \<not> tfresource_NotFound R e') \<longrightarrow>
              res = (Return (Some (Errorf
                       (''error reading RDS instance automated backup replication ('' @ rd_Id d' @ '')'')
                       e')), d', w1))
         \<and> (r = (Some b, None) \<longrightarrow>
              res = (Return None,
                     d'\<lparr>rd_attrs := (rd_attrs d')
                          (''kms_key_id'' := map_option StringVal (dab_KmsKeyId b),
                           ''retention_period'' := map_option IntVal (dab_BackupRetentionPeriod b),
                           ''source_db_instance_arn'' := map_option StringVal (dab_DBInstanceArn b))\<rparr>,
                     w1)))"
  unfolding resourceRuleAssociationRead_unfold
  by (auto simp add: resourceInstanceAutomatedBackupReplicationRead_def
      FindDBInstanceAutomatedBackupByARN_call_def NotFound_def d_SetId_def d_Set_def Let_def)

theorem read_clears_or_copies_witness:
  "resourceRuleAssociationRead env_absent d_known [] =
     (Return [], d_known\<lparr>rd_Id := []\<rparr>,
      [Call_GetResolverRuleAssociation \<lparr>gri_ResolverRuleAssociationId = Some ''rslvr-rrassoc-1''\<rparr>])
   \<and> resourceRuleAssociationRead env_broken d_known [] =
     (Return [Errorf ''reading Route53 Resolver Rule Association (rslvr-rrassoc-1)''
                (ServiceError ''InternalServiceErrorException'')],
      d_known,
      [Call_GetResolverRuleAssociation \<lparr>gri_ResolverRuleAssociationId = Some ''rslvr-rrassoc-1''\<rparr>])
   \<and> resourceRuleAssociationRead env_present d_known [] =
     (Return [],
      d_known\<lparr>rd_attrs := (rd_attrs d_known)
                  (''name'' \<mapsto> StringVal ''to-vpc'',
                   ''resolver_rule_id'' \<mapsto> StringVal ''rslvr-rr-7'',
                   ''vpc_id'' \<mapsto> StringVal ''vpc-9'')\<rparr>,
      [Call_GetResolverRuleAssociation \<lparr>gri_ResolverRuleAssociationId = Some ''rslvr-rrassoc-1''\<rparr>])
   \<and> resourceInstanceAutomatedBackupReplicationRead rds_absent meta_west d_backup_known [] =
     (Return None, d_backup_known\<lparr>rd_Id := []\<rparr>,
      [Call_FindDBInstanceAutomatedBackupByARN meta_RDSConn
         ''arn:aws:rds:us-west-2:123456789012:auto-backup:ab-1''])
   \<and> resourceInstanceAutomatedBackupReplicationRead rds_present meta_west d_backup_known [] =
     (Return None,
      d_backup_known\<lparr>rd_attrs := (rd_attrs d_backup_known)
                        (''kms_key_id'' \<mapsto> StringVal ''arn:aws:kms:us-west-2:123456789012:key/k1'',
                         ''retention_period'' \<mapsto> IntVal 7,
                         ''source_db_instance_arn'' \<mapsto>
                            StringVal ''arn:aws:rds:us-east-1:123456789012:db:mydb'')\<rparr>,
      [Call_FindDBInstanceAutomatedBackupByARN meta_RDSConn
         ''arn:aws:rds:us-west-2:123456789012:auto-backup:ab-1''])"
  using read_clears_or_copies
    [where E = env_absent and d = d_known and w = "[]" and x = None
       and e = "NotFoundError (Some (ResourceNotFoundException ''no such association''))
                  (Some \<lparr>gri_ResolverRuleAssociationId = Some ''rslvr-rrassoc-1''\<rparr>)"
       and R = rds_absent and meta = meta_west and d' = d_backup_known and w' = "[]"
       and x' = None and e' = "NotFoundError None None"]
    read_clears_or_copies
    [where E = env_broken and d = d_known and w = "[]" and x = None
       and e = "ServiceError ''InternalServiceErrorException''"
       and R = rds_present and meta = meta_west and d' = d_backup_known and w' = "[]"
       and b = backup1]
    read_clears_or_copies
    [where E = env_present and d = d_known and w = "[]" and ra = ra_complete
       and R = rds_present and meta = meta_west and d' = d_backup_known and w' = "[]"
       and b = backup1]
  by (simp add: env_absent_def env_broken_def env_present_def rds_absent_def rds_present_def
      d_known_def d_config_def d_backup_known_def d_backup_config_def ra_complete_def backup1_def
      findResolverRuleAssociationByID_def conn_GetResolverRuleAssociation_def
      IsA_ResourceNotFoundException_def isA0_def notFound0_def Let_def)

theorem read_not_found_on_new_resource_counterexample:
  "rd_IsNewResource d_fresh
   \<and> rd_Id d_fresh = ''rslvr-rrassoc-1''
   \<and> NotFound env_absent (snd (fst (findResolverRuleAssociationByID env_absent (rd_Id d_fresh) [])))
   \<and> resourceRuleAssociationRead env_absent d_fresh [] =
       (Return [Errorf ''reading Route53 Resolver Rule Association (rslvr-rrassoc-1)''
                  (NotFoundError (Some (ResourceNotFoundException ''no such association''))
                     (Some \<lparr>gri_ResolverRuleAssociationId = Some ''rslvr-rrassoc-1''\<rparr>))],
        d_fresh,
        [Call_GetResolverRuleAssociation \<lparr>gri_ResolverRuleAssociationId = Some ''rslvr-rrassoc-1''\<rparr>])
   \<and> \<not> (fst (resourceRuleAssociationRead env_absent d_fresh []) = Return []
          \<and> rd_Id (fst (snd (resourceRuleAssociationRead env_absent d_fresh []))) = [])"
  by (simp add: resourceRuleAssociationRead_def findResolverRuleAssociationByID_def
      conn_GetResolverRuleAssociation_def IsA_ResourceNotFoundException_def NotFound_def
      sdkdiag_AppendErrorf_def env_absent_def d_fresh_def d_config_def isA0_def notFound0_def Let_def)

text \<open>
  C2. The delete handlers take a not-found answer for success. For the rule association:
  when DisassociateResolverRule fails with the SDK's ResourceNotFoundException, the
  handler returns no diagnostics, and that call is the only one it makes. For the backup
  replication: when the lookup by ARN that precedes the teardown reports not found, the
  handler returns nil, and the lookup is the only call it makes.
\<close>

theorem delete_tolerates_not_found:
  "(let input = \<lparr>dri_ResolverRuleId = Some (d_Get_string d ''resolver_rule_id''),
                  dri_VPCId = Some (d_Get_string d AttrVPCID)\<rparr>
    in DisassociateResolverRule E w input = (out, Some e)
         \<and> errs_IsA_ResourceNotFoundException E e \<longrightarrow>
       resourceRuleAssociationDelete E d w =
         (Return [], d, w @ [Call_DisassociateResolverRule input]))
   \<and> (FindDBInstanceAutomatedBackupByARN R w' meta_RDSConn (rd_Id d') = (b, Some e')
         \<and> tfresource_NotFound R e' \<longrightarrow>
       resourceInstanceAutomatedBackupReplicationDelete R meta d' w' =
         (Return None, d', w' @ [Call_FindDBInstanceAutomatedBackupByARN meta_RDSConn (rd_Id d')]))"
  by (simp add: resourceRuleAssociationDelete_def resourceInstanceAutomatedBackupReplicationDelete_def
      conn_DisassociateResolverRule_def FindDBInstanceAutomatedBackupByARN_call_def
      IsA_ResourceNotFoundException_def NotFound_def Let_def)

theorem delete_tolerates_not_found_witness:
  "resourceRuleAssociationDelete env_absent d_known [] =
     (Return [], d_known,
      [Call_DisassociateResolverRule
         \<lparr>dri_ResolverRuleId = Some ''rslvr-rr-7'', dri_VPCId = Some ''vpc-9''\<rparr>])
   \<and> resourceInstanceAutomatedBackupReplicationDelete rds_absent meta_west d_backup_known [] =
     (Return None, d_backup_known,
      [Call_FindDBInstanceAutomatedBackupByARN meta_RDSConn
         ''arn:aws:rds:us-west-2:123456789012:auto-backup:ab-1''])"
  using delete_tolerates_not_found
    [where E = env_absent and d = d_known and w = "[]" and out = None
       and e = "ResourceNotFoundException ''no such association''"
       and R = rds_absent and meta = meta_west and d' = d_backup_known and w' = "[]"
       and b = None and e' = "NotFoundError None None"]
  by (simp add: env_absent_def rds_absent_def rds_present_def d_known_def d_config_def
      d_backup_known_def d_backup_config_def d_Get_string_def AttrVPCID_def isA0_def notFound0_def
      Let_def)




text \<open>
  C4, as the code has it. When GetResolverRuleAssociation fails with the SDK's
  ResourceNotFoundException, the lookup returns the sentinel retry.NotFoundError with
  that error as LastError and the request as LastRequest; any other error of the call is
  returned as it is. Where tfresource.NotFound takes the sentinel for not found: the read
  handler clears the id and returns without error when the resource is not new, and
  returns the sentinel wrapped in a read error, with the id kept, when the resource is
  new; the status function maps the sentinel to nil, the empty status and a nil error.
  The delete handler itself never sees the sentinel: after a successful
  DisassociateResolverRule it hands that status function to the poller, with an empty
  target.
\<close>

theorem find_translates_not_found:
  "(let input = \<lparr>gri_ResolverRuleAssociationId = Some ident\<rparr>;
        r = fst (findResolverRuleAssociationByID E ident w)
    in (GetResolverRuleAssociation E w input = (out, Some e)
          \<and> errs_IsA_ResourceNotFoundException E e \<longrightarrow>
        r = (None, Some (NotFoundError (Some e) (Some input))))
       \<and> (GetResolverRuleAssociation E w input = (out, Some e)
            \<and> \<not> errs_IsA_ResourceNotFoundException E e \<longrightarrow>
          r = (None, Some e)))
   \<and> (let sentinel = NotFoundError l q;
          w1 = w @ [Call_GetResolverRuleAssociation \<lparr>gri_ResolverRuleAssociationId = Some (rd_Id d)\<rparr>]
      in fst (findResolverRuleAssociationByID E (rd_Id d) w) = (None, Some sentinel)
           \<and> tfresource_NotFound E sentinel \<longrightarrow>
         (if rd_IsNewResource d
          then resourceRuleAssociationRead E d w =
                 (Return [Errorf (''reading Route53 Resolver Rule Association ('' @ rd_Id d @ '')'')
                            sentinel], d, w1)
          else resourceRuleAssociationRead E d w = (Return [], d\<lparr>rd_Id := []\<rparr>, w1))
         \<and> run_StateRefreshFunc E (statusRuleAssociation (rd_Id d)) w = (Return (None, [], None), w1))
   \<and> (let input = \<lparr>dri_ResolverRuleId = Some (d_Get_string d' ''resolver_rule_id''),
                    dri_VPCId = Some (d_Get_string d' AttrVPCID)\<rparr>;
          conf = \<lparr>Pending = [''DELETING''], Target = [],
                   Refresh = statusRuleAssociation (rd_Id d'), Timeout = rd_Timeout d' TimeoutDelete,
                   Delay = 10 * Second, MinTimeout = 5 * Second\<rparr>
      in DisassociateResolverRule E w' input = (out', None) \<longrightarrow>
         snd (snd (resourceRuleAssociationDelete E d' w')) =
           w' @ [Call_DisassociateResolverRule input, Call_WaitForStateContext conf])"
proof -
  have a: "findResolverRuleAssociationByID E (rd_Id d) w = (r, w1) \<Longrightarrow>
           w1 = w @ [Call_GetResolverRuleAssociation \<lparr>gri_ResolverRuleAssociationId = Some (rd_Id d)\<rparr>]"
    for r w1
    using findResolverRuleAssociationByID_calls [of E "rd_Id d" w] by simp
  have find_part:
    "let input = \<lparr>gri_ResolverRuleAssociationId = Some ident\<rparr>;
         r = fst (findResolverRuleAssociationByID E ident w)
     in (GetResolverRuleAssociation E w input = (out, Some e)
           \<and> errs_IsA_ResourceNotFoundException E e \<longrightarrow>
         r = (None, Some (NotFoundError (Some e) (Some input))))
        \<and> (GetResolverRuleAssociation E w input = (out, Some e)
             \<and> \<not> errs_IsA_ResourceNotFoundException E e \<longrightarrow>
           r = (None, Some e))"
    by (simp add: findResolverRuleAssociationByID_def conn_GetResolverRuleAssociation_def
        IsA_ResourceNotFoundException_def Let_def)
  have read_part:
    "let sentinel = NotFoundError l q;
         w1 = w @ [Call_GetResolverRuleAssociation \<lparr>gri_ResolverRuleAssociationId = Some (rd_Id d)\<rparr>]
     in fst (findResolverRuleAssociationByID E (rd_Id d) w) = (None, Some sentinel)
          \<and> tfresource_NotFound E sentinel \<longrightarrow>
        (if rd_IsNewResource d
         then resourceRuleAssociationRead E d w =
                (Return [Errorf (''reading Route53 Resolver Rule Association ('' @ rd_Id d @ '')'')
                           sentinel], d, w1)
         else resourceRuleAssociationRead E d w = (Return [], d\<lparr>rd_Id := []\<rparr>, w1))
        \<and> run_StateRefreshFunc E (statusRuleAssociation (rd_Id d)) w = (Return (None, [], None), w1)"
    unfolding resourceRuleAssociationRead_unfold
    by (auto simp add: statusRuleAssociation_def NotFound_def Let_def dest: a split: prod.splits)
  have delete_part:
    "let input = \<lparr>dri_ResolverRuleId = Some (d_Get_string d' ''resolver_rule_id''),
                   dri_VPCId = Some (d_Get_string d' AttrVPCID)\<rparr>;
         conf = \<lparr>Pending = [''DELETING''], Target = [],
                  Refresh = statusRuleAssociation (rd_Id d'), Timeout = rd_Timeout d' TimeoutDelete,
                  Delay = 10 * Second, MinTimeout = 5 * Second\<rparr>
     in DisassociateResolverRule E w' input = (out', None) \<longrightarrow>
        snd (snd (resourceRuleAssociationDelete E d' w')) =
          w' @ [Call_DisassociateResolverRule input, Call_WaitForStateContext conf]"
    by (simp add: resourceRuleAssociationDelete_def conn_DisassociateResolverRule_def
        waitRuleAssociationDeleted_def WaitForStateContext_call_def
        IsA_ResourceNotFoundException_def ResolverRuleAssociationStatusDeleting_def Let_def
        split: prod.splits option.splits)
  from find_part read_part delete_part show ?thesis
    by blast
qed

theorem find_translates_not_found_witness:
  "fst (findResolverRuleAssociationByID env_absent ''rslvr-rrassoc-1'' []) =
     (None, Some (NotFoundError (Some (ResourceNotFoundException ''no such association''))
                    (Some \<lparr>gri_ResolverRuleAssociationId = Some ''rslvr-rrassoc-1''\<rparr>)))
   \<and> fst (findResolverRuleAssociationByID env_broken ''rslvr-rrassoc-1'' []) =
     (None, Some (ServiceError ''InternalServiceErrorException''))
   \<and> resourceRuleAssociationRead env_absent d_known [] =
     (Return [], d_known\<lparr>rd_Id := []\<rparr>,
      [Call_GetResolverRuleAssociation \<lparr>gri_ResolverRuleAssociationId = Some ''rslvr-rrassoc-1''\<rparr>])
   \<and> run_StateRefreshFunc env_absent (statusRuleAssociation ''rslvr-rrassoc-1'') [] =
     (Return (None, [], None),
      [Call_GetResolverRuleAssociation \<lparr>gri_ResolverRuleAssociationId = Some ''rslvr-rrassoc-1''\<rparr>])
   \<and> snd (snd (resourceRuleAssociationDelete env_present d_known [])) =
     [Call_DisassociateResolverRule
        \<lparr>dri_ResolverRuleId = Some ''rslvr-rr-7'', dri_VPCId = Some ''vpc-9''\<rparr>,
      Call_WaitForStateContext
        \<lparr>Pending = [''DELETING''], Target = [],
         Refresh = statusRuleAssociation ''rslvr-rrassoc-1'', Timeout = 20 * Minute,
         Delay = 10 * Second, MinTimeout = 5 * Second\<rparr>]"
  using find_translates_not_found
    [where E = env_absent and ident = "''rslvr-rrassoc-1''" and w = "[]" and out = None
       and e = "ResourceNotFoundException ''no such association''"
       and l = "Some (ResourceNotFoundException ''no such association'')"
       and q = "Some \<lparr>gri_ResolverRuleAssociationId = Some ''rslvr-rrassoc-1''\<rparr>"
       and d = d_known and d' = d_known and w' = "[]"]
    find_translates_not_found
    [where E = env_broken and ident = "''rslvr-rrassoc-1''" and w = "[]" and out = None
       and e = "ServiceError ''InternalServiceErrorException''"
       and d = d_known and d' = d_known and w' = "[]"]
    find_translates_not_found
    [where E = env_present and ident = "''rslvr-rrassoc-1''" and w = "[]"
       and d = d_known and d' = d_known and w' = "[]"
       and out' = "Some \<lparr>dro_ResolverRuleAssociation = Some ra_complete\<rparr>"]
  by (simp add: env_absent_def env_broken_def env_present_def d_known_def d_config_def
      d_Get_string_def AttrVPCID_def TimeoutDelete_def isA0_def notFound0_def Let_def)

theorem read_keeps_new_resource_on_sentinel_counterexample:
  "fst (findResolverRuleAssociationByID env_absent ''rslvr-rrassoc-1'' []) =
     (None, Some (NotFoundError (Some (ResourceNotFoundException ''no such association''))
                    (Some \<lparr>gri_ResolverRuleAssociationId = Some ''rslvr-rrassoc-1''\<rparr>)))
   \<and> tfresource_NotFound env_absent
        (NotFoundError (Some (ResourceNotFoundException ''no such association''))
           (Some \<lparr>gri_ResolverRuleAssociationId = Some ''rslvr-rrassoc-1''\<rparr>))
   \<and> fst (resourceRuleAssociationRead env_absent d_fresh []) =
       Return [Errorf ''reading Route53 Resolver Rule Association (rslvr-rrassoc-1)''
                 (NotFoundError (Some (ResourceNotFoundException ''no such association''))
                    (Some \<lparr>gri_ResolverRuleAssociationId = Some ''rslvr-rrassoc-1''\<rparr>))]
   \<and> rd_Id (fst (snd (resourceRuleAssociationRead env_absent d_fresh []))) = ''rslvr-rrassoc-1''"
  by (simp add: resourceRuleAssociationRead_def findResolverRuleAssociationByID_def
      conn_GetResolverRuleAssociation_def IsA_ResourceNotFoundException_def NotFound_def
      sdkdiag_AppendErrorf_def env_absent_def d_fresh_def d_config_def isA0_def notFound0_def Let_def)

text \<open>
  C5, as the code has it. The waiters attach the status message only to an error that
  the poller returns together with a rule association: then the create waiter and the
  delete waiter return that object and the error after tfresource.SetLastError has been
  applied to it with a new error made of the object's status message. When the poller
  returns no object, the waiters return the poller's error as it is: a timeout that the
  poller reports without an object reaches the caller with no status message. The poller
  is called once.
\<close>

theorem wait_attaches_status_message_to_object_only:
  "(let conf = \<lparr>Pending = [''CREATING''], Target = [''COMPLETE''],
                 Refresh = statusRuleAssociation ident, Timeout = timeout,
                 Delay = 10 * Second, MinTimeout = 5 * Second\<rparr>
    in (WaitForStateContext E w conf = (Some obj, Some e) \<longrightarrow>
          waitRuleAssociationCreated E ident timeout w =
            ((Some obj,
              Some (tfresource_SetLastError E e (errors_New (aws_ToString (rra_StatusMessage obj))))),
             w @ [Call_WaitForStateContext conf]))
       \<and> (WaitForStateContext E w conf = (None, err) \<longrightarrow>
            waitRuleAssociationCreated E ident timeout w =
              ((None, err), w @ [Call_WaitForStateContext conf])))
   \<and> (let conf = \<lparr>Pending = [''DELETING''], Target = [],
                   Refresh = statusRuleAssociation ident, Timeout = timeout,
                   Delay = 10 * Second, MinTimeout = 5 * Second\<rparr>
      in (WaitForStateContext E w conf = (Some obj, Some e) \<longrightarrow>
            waitRuleAssociationDeleted E ident timeout w =
              ((Some obj,
                Some (tfresource_SetLastError E e (errors_New (aws_ToString (rra_StatusMessage obj))))),
               w @ [Call_WaitForStateContext conf]))
         \<and> (WaitForStateContext E w conf = (None, err) \<longrightarrow>
              waitRuleAssociationDeleted E ident timeout w =
                ((None, err), w @ [Call_WaitForStateContext conf])))"
  by (simp add: waitRuleAssociationCreated_def waitRuleAssociationDeleted_def
      WaitForStateContext_call_def SetLastError_def
      ResolverRuleAssociationStatusCreating_def ResolverRuleAssociationStatusComplete_def
      ResolverRuleAssociationStatusDeleting_def Let_def)

theorem wait_attaches_status_message_to_object_only_witness:
  "fst (waitRuleAssociationCreated env_stuck ''rslvr-rrassoc-1'' (10 * Minute) []) =
     (Some ra_failed,
      Some (UnexpectedStateError (Some (errors_New ''rule not shared'')) ''FAILED'' [''COMPLETE'']))
   \<and> fst (waitRuleAssociationDeleted env_stuck ''rslvr-rrassoc-1'' (10 * Minute) []) =
     (Some ra_failed,
      Some (UnexpectedStateError (Some (errors_New ''rule not shared'')) ''FAILED'' []))
   \<and> fst (waitRuleAssociationCreated env_timeout ''rslvr-rrassoc-1'' (10 * Minute) []) =
     (None, Some (TimeoutError None ''CREATING'' (10 * Minute) [''COMPLETE'']))
   \<and> fst (waitRuleAssociationDeleted env_timeout ''rslvr-rrassoc-1'' (10 * Minute) []) =
     (None, Some (TimeoutError None ''CREATING'' (10 * Minute) []))"
  using wait_attaches_status_message_to_object_only
    [where E = env_stuck and ident = "''rslvr-rrassoc-1''" and timeout = "10 * Minute" and w = "[]"
       and obj = ra_failed and e = "UnexpectedStateError None ''FAILED'' [''COMPLETE'']"]
    wait_attaches_status_message_to_object_only
    [where E = env_stuck and ident = "''rslvr-rrassoc-1''" and timeout = "10 * Minute" and w = "[]"
       and obj = ra_failed and e = "UnexpectedStateError None ''FAILED'' []"]
    wait_attaches_status_message_to_object_only
    [where E = env_timeout and ident = "''rslvr-rrassoc-1''" and timeout = "10 * Minute" and w = "[]"
       and err = "Some (TimeoutError None ''CREATING'' (10 * Minute) [''COMPLETE''])"]
    wait_attaches_status_message_to_object_only
    [where E = env_timeout and ident = "''rslvr-rrassoc-1''" and timeout = "10 * Minute" and w = "[]"
       and err = "Some (TimeoutError None ''CREATING'' (10 * Minute) [])"]
  by (simp add: env_stuck_def env_timeout_def env_present_def ra_failed_def ra_complete_def
      setLastError0_def aws_ToString_def Let_def)

theorem wait_timeout_without_status_message_counterexample:
  "fst (run_StateRefreshFunc env_timeout (statusRuleAssociation ''rslvr-rrassoc-1'') []) =
     Return (Some ra_creating, ''CREATING'', None)
   \<and> rra_StatusMessage ra_creating = Some ''creating the association''
   \<and> WaitForStateContext env_timeout []
        \<lparr>Pending = [''CREATING''], Target = [''COMPLETE''],
         Refresh = statusRuleAssociation ''rslvr-rrassoc-1'', Timeout = 10 * Minute,
         Delay = 10 * Second, MinTimeout = 5 * Second\<rparr> =
       (None, Some (TimeoutError None ''CREATING'' (10 * Minute) [''COMPLETE'']))
   \<and> fst (waitRuleAssociationCreated env_timeout ''rslvr-rrassoc-1'' (10 * Minute) []) =
       (None, Some (TimeoutError None ''CREATING'' (10 * Minute) [''COMPLETE'']))
   \<and> fst (resourceRuleAssociationCreate env_timeout d_config []) =
       Return [Errorf ''waiting for Route53 Resolver Rule Association (rslvr-rrassoc-1) create''
                 (TimeoutError None ''CREATING'' (10 * Minute) [''COMPLETE''])]"
  by (simp add: resourceRuleAssociationCreate_def conn_AssociateResolverRule_def
      waitRuleAssociationCreated_unfold statusRuleAssociation_def
      findResolverRuleAssociationByID_def conn_GetResolverRuleAssociation_def
      IsA_ResourceNotFoundException_def NotFound_def sdkdiag_AppendErrorf_def
      d_GetOk_string_def d_Get_string_def d_SetId_def aws_ToString_def
      env_timeout_def env_present_def ra_creating_def ra_complete_def d_config_def
      AttrName_def AttrVPCID_def TimeoutCreate_def Let_def)

text \<open>
  C6. The status function makes the one read call of the lookup and returns one of three
  shapes: the object, its status string and a nil error when the lookup succeeds; nil,
  the empty string and a nil error when the lookup's error is a not-found error; nil,
  the empty string and the lookup's error otherwise. It never dereferences nil.
\<close>

theorem statusRuleAssociation_three_shapes:
  "(let r = fst (findResolverRuleAssociationByID E ident w);
        s = run_StateRefreshFunc E (statusRuleAssociation ident) w
    in snd s = w @ [Call_GetResolverRuleAssociation \<lparr>gri_ResolverRuleAssociationId = Some ident\<rparr>]
       \<and> ((\<exists>ra. r = (Some ra, None) \<and> fst s = Return (Some ra, rra_Status ra, None))
          \<or> (\<exists>e. r = (None, Some e) \<and> tfresource_NotFound E e \<and> fst s = Return (None, [], None))
          \<or> (\<exists>e. r = (None, Some e) \<and> \<not> tfresource_NotFound E e
                \<and> fst s = Return (None, [], Some e))))"
proof -
  obtain obj err w1 where f: "findResolverRuleAssociationByID E ident w = ((obj, err), w1)"
    by (metis surj_pair)
  have w1: "w1 = w @ [Call_GetResolverRuleAssociation \<lparr>gri_ResolverRuleAssociationId = Some ident\<rparr>]"
    using findResolverRuleAssociationByID_calls [of E ident w] f by simp
  have shape: "(\<exists>ra. (obj, err) = (Some ra, None)) \<or> (\<exists>e. (obj, err) = (None, Some e))"
    using findResolverRuleAssociationByID_shape [of E ident w] f by simp
  from shape show ?thesis
    by (auto simp add: f w1 statusRuleAssociation_def NotFound_def Let_def)
qed

theorem statusRuleAssociation_three_shapes_witness:
  "fst (run_StateRefreshFunc env_present (statusRuleAssociation ''rslvr-rrassoc-1'') []) =
     Return (Some ra_complete, ''COMPLETE'', None)
   \<and> fst (run_StateRefreshFunc env_absent (statusRuleAssociation ''rslvr-rrassoc-1'') []) =
     Return (None, [], None)
   \<and> fst (run_StateRefreshFunc env_broken (statusRuleAssociation ''rslvr-rrassoc-1'') []) =
     Return (None, [], Some (ServiceError ''InternalServiceErrorException''))"
  using statusRuleAssociation_three_shapes [where E = env_present and ident = "''rslvr-rrassoc-1''" and w = "[]"]
    statusRuleAssociation_three_shapes [where E = env_absent and ident = "''rslvr-rrassoc-1''" and w = "[]"]
    statusRuleAssociation_three_shapes [where E = env_broken and ident = "''rslvr-rrassoc-1''" and w = "[]"]
  by (simp add: env_present_def env_absent_def env_broken_def ra_complete_def statusRuleAssociation_def
      findResolverRuleAssociationByID_def conn_GetResolverRuleAssociation_def
      IsA_ResourceNotFoundException_def NotFound_def isA0_def notFound0_def Let_def)



text \<open>
  C8. When the SDK's create call fails (AssociateResolverRule, resp.
  StartDBInstanceAutomatedBackupsReplication returns an error), the create handler returns
  that error wrapped, makes no further call, and leaves the resource data as it was: the
  id is not set.
\<close>

theorem create_failure_keeps_state:
  "(let input = \<lparr>ari_Name = (if d_Get_string d AttrName = [] then None
                               else Some (d_Get_string d AttrName)),
                  ari_ResolverRuleId = Some (d_Get_string d ''resolver_rule_id''),
                  ari_VPCId = Some (d_Get_string d AttrVPCID)\<rparr>
    in AssociateResolverRule E w input = (out, Some e) \<longrightarrow>
       resourceRuleAssociationCreate E d w =
         (Return [Errorf ''creating Route53 Resolver Rule Association'' e], d,
          w @ [Call_AssociateResolverRule input]))
   \<and> (let input = \<lparr>sri_BackupRetentionPeriod = Some (d_Get_int d' ''retention_period''),
                    sri_KmsKeyId = (if d_Get_string d' ''kms_key_id'' = [] then None
                                    else Some (d_Get_string d' ''kms_key_id'')),
                    sri_SourceDBInstanceArn = Some (d_Get_string d' ''source_db_instance_arn'')\<rparr>
      in StartDBInstanceAutomatedBackupsReplication R w' meta_RDSConn input = (out', Some e') \<longrightarrow>
         resourceInstanceAutomatedBackupReplicationCreate R meta d' w' =
           (Return (Some (Errorf ''error starting RDS instance automated backup replication'' e')), d',
            w' @ [Call_StartDBInstanceAutomatedBackupsReplication meta_RDSConn input]))"
  by (simp add: resourceRuleAssociationCreate_def resourceInstanceAutomatedBackupReplicationCreate_def
      conn_AssociateResolverRule_def conn_StartDBInstanceAutomatedBackupsReplication_def
      d_GetOk_string_def sdkdiag_AppendErrorf_def Let_def)

theorem create_failure_keeps_state_witness:
  "resourceRuleAssociationCreate env_absent d_config [] =
     (Return [Errorf ''creating Route53 Resolver Rule Association'' (ServiceError ''InvalidRequestException'')],
      d_config,
      [Call_AssociateResolverRule
         \<lparr>ari_Name = None, ari_ResolverRuleId = Some ''rslvr-rr-7'', ari_VPCId = Some ''vpc-9''\<rparr>])
   \<and> resourceInstanceAutomatedBackupReplicationCreate rds_absent meta_west d_backup_config [] =
     (Return (Some (Errorf ''error starting RDS instance automated backup replication''
                      (ServiceError ''DBInstanceNotFound''))),
      d_backup_config,
      [Call_StartDBInstanceAutomatedBackupsReplication meta_RDSConn
         \<lparr>sri_BackupRetentionPeriod = Some 7, sri_KmsKeyId = None,
          sri_SourceDBInstanceArn = Some ''arn:aws:rds:us-east-1:123456789012:db:mydb''\<rparr>])"
  using create_failure_keeps_state
    [where E = env_absent and d = d_config and w = "[]" and out = None
       and e = "ServiceError ''InvalidRequestException''"
       and R = rds_absent and meta = meta_west and d' = d_backup_config and w' = "[]"
       and out' = None and e' = "ServiceError ''DBInstanceNotFound''"]
  by (simp add: env_absent_def rds_absent_def d_config_def d_backup_config_def d_Get_string_def
      d_Get_int_def AttrName_def AttrVPCID_def Let_def)

text \<open>
  C9. findResolverRuleAssociationByID never returns a nil association together with a
  nil error: it returns an association and no error, or no association and an error.
  A nil response, and a response that holds no association, give an EmptyResultError.
\<close>

theorem findResolverRuleAssociationByID_not_nil_nil:
  "(let input = \<lparr>gri_ResolverRuleAssociationId = Some ident\<rparr>;
        resp = GetResolverRuleAssociation E w input;
        r = fst (findResolverRuleAssociationByID E ident w)
    in ((\<exists>ra. r = (Some ra, None)) \<or> (\<exists>e. r = (None, Some e)))
       \<and> (resp = (None, None) \<or> (\<exists>out. resp = (Some out, None) \<and> gro_ResolverRuleAssociation out = None)
            \<longrightarrow> r = (None, Some (EmptyResultError input))))"
  by (auto simp add: findResolverRuleAssociationByID_def conn_GetResolverRuleAssociation_def
      IsA_ResourceNotFoundException_def Let_def split: prod.splits option.splits)

theorem findResolverRuleAssociationByID_not_nil_nil_witness:
  "GetResolverRuleAssociation env_empty []
      \<lparr>gri_ResolverRuleAssociationId = Some ''rslvr-rrassoc-1''\<rparr>
     = (Some \<lparr>gro_ResolverRuleAssociation = None\<rparr>, None)
   \<and> fst (findResolverRuleAssociationByID env_empty ''rslvr-rrassoc-1'' [])
     = (None, Some (EmptyResultError \<lparr>gri_ResolverRuleAssociationId = Some ''rslvr-rrassoc-1''\<rparr>))"
  using findResolverRuleAssociationByID_not_nil_nil
    [where E = env_empty and w = "[]" and ident = "''rslvr-rrassoc-1''"]
  by (simp add: env_empty_def Let_def)

text \<open>
  C10. Once the lookup, the parse of the source ARN and the stop call have succeeded, the
  backup replication's delete handler waits for the deletion with the timeout
  d.Timeout(schema.TimeoutCreate), the create timeout. The wait runs on a new client for
  the region of the source database's ARN when that region is not the provider's, and
  on the provider's client otherwise; the lookup and the stop call run on the
  provider's client.
\<close>

theorem rds_delete_waits_with_create_timeout:
  "(let stop = \<lparr>spi_SourceDBInstanceArn = Some (d_Get_string d ''source_db_instance_arn'')\<rparr>;
        w1 = w @ [Call_FindDBInstanceAutomatedBackupByARN meta_RDSConn (rd_Id d)]
    in FindDBInstanceAutomatedBackupByARN R w meta_RDSConn (rd_Id d) = (Some b, None)
         \<and> arn_Parse R (aws_ToString (dab_DBInstanceArn b)) = (a, None)
         \<and> StopDBInstanceAutomatedBackupsReplication R w1 meta_RDSConn stop = (so, None) \<longrightarrow>
       snd (snd (resourceInstanceAutomatedBackupReplicationDelete R meta d w)) =
         w1 @ [Call_StopDBInstanceAutomatedBackupsReplication meta_RDSConn stop,
               Call_waitDBInstanceAutomatedBackupDeleted
                 (if arn_Region a = Region meta then meta_RDSConn else rds_New (arn_Region a))
                 (aws_ToString (dab_DBInstanceIdentifier b)) (rd_Id d)
                 (rd_Timeout d TimeoutCreate)])"
  by (simp add: resourceInstanceAutomatedBackupReplicationDelete_def
      FindDBInstanceAutomatedBackupByARN_call_def conn_StopDBInstanceAutomatedBackupsReplication_def
      waitDBInstanceAutomatedBackupDeleted_call_def NotFound_def Let_def
      split: prod.splits option.splits)

theorem rds_delete_waits_with_create_timeout_witness:
  "snd (snd (resourceInstanceAutomatedBackupReplicationDelete rds_present meta_west d_backup_known [])) =
     [Call_FindDBInstanceAutomatedBackupByARN meta_RDSConn
        ''arn:aws:rds:us-west-2:123456789012:auto-backup:ab-1'',
      Call_StopDBInstanceAutomatedBackupsReplication meta_RDSConn
        \<lparr>spi_SourceDBInstanceArn = Some ''arn:aws:rds:us-east-1:123456789012:db:mydb''\<rparr>,
      Call_waitDBInstanceAutomatedBackupDeleted (rds_New ''us-east-1'') ''mydb''
        ''arn:aws:rds:us-west-2:123456789012:auto-backup:ab-1'' (75 * Minute)]
   \<and> rd_Timeout d_backup_known TimeoutDelete = 20 * Minute"
  using rds_delete_waits_with_create_timeout
    [where R = rds_present and meta = meta_west and d = d_backup_known and w = "[]"
       and b = backup1 and so = "Some \<lparr>spo_DBInstanceAutomatedBackup = Some backup1\<rparr>"
       and a = "\<lparr>arn_Partition = ''aws'', arn_Service = ''rds'', arn_Region = ''us-east-1'',
                  arn_AccountID = ''123456789012'', arn_Resource = ''db:mydb''\<rparr>"]
  by (simp add: rds_present_def meta_west_def d_backup_known_def d_backup_config_def backup1_def
      parse1_def d_Get_string_def aws_ToString_def TimeoutCreate_def TimeoutDelete_def Let_def)

end
